theory Spec2Isabelle
  imports Main
begin

section \<open>Types of the client (\<^verbatim>\<open>types/index.ts\<close>)\<close>

text \<open>
  The three enumerations of the client are \<^verbatim>\<open>as const\<close> objects of numbers, so a value
  of such a type is a number at run time, and a cast (\<^verbatim>\<open>params.value as ScanStatus\<close>)
  lets any number through. They are modelled as named integers.
\<close>

definition DEV :: int where "DEV = 1"
definition ANALYST :: int where "ANALYST = 2"
definition ADMIN :: int where "ADMIN = 3"

definition PENDING :: int where "PENDING = 1"
definition RUNNING :: int where "RUNNING = 2"
definition COMPLETED :: int where "COMPLETED = 3"
definition FAILED :: int where "FAILED = 4"

definition LOW :: int where "LOW = 1"
definition MEDIUM :: int where "MEDIUM = 2"
definition HIGH :: int where "HIGH = 3"
definition CRITICAL :: int where "CRITICAL = 4"

text \<open>\<^verbatim>\<open>interface User\<close>; the field \<^verbatim>\<open>id\<close> is suffixed, \<open>id\<close> being the identity of HOL.\<close>

record User =
  id_user :: int
  username :: string
  role :: int
  created_at :: string
  updated_at :: string



text \<open>
  \<^verbatim>\<open>SeverityColors: Record<VulnerabilitySeverity, ...>\<close> is an object with four keys, in
  the order of the source; looking up any other key gives \<^verbatim>\<open>undefined\<close> (\<open>None\<close>).
\<close>

definition SeverityColors :: "int \<rightharpoonup> string" where
  "SeverityColors =
     map_of [(CRITICAL, ''error''), (HIGH, ''error''), (MEDIUM, ''warning''), (LOW, ''info'')]"

section \<open>Status colour (\<^verbatim>\<open>ScansPage.tsx\<close>, \<^verbatim>\<open>ScanDetailsPage.tsx\<close>)\<close>

text \<open>
  \<^verbatim>\<open>getStatusColor\<close> is written twice, once in each page, as a \<^verbatim>\<open>switch\<close> with a
  \<^verbatim>\<open>default\<close> branch. Both copies are modelled, case by case in the order of the source.
\<close>

definition getStatusColor :: "int \<Rightarrow> string" where
  "getStatusColor status =
     (if status = COMPLETED then ''success''
      else if status = RUNNING then ''warning''
      else if status = FAILED then ''error''
      else ''default'')"

definition getStatusColor_details :: "int \<Rightarrow> string" where
  "getStatusColor_details status =
     (if status = COMPLETED then ''success''
      else if status = RUNNING then ''warning''
      else if status = FAILED then ''error''
      else ''default'')"

section \<open>The scans list view (\<^verbatim>\<open>ScansPage.tsx\<close>)\<close>

text \<open>
  \<^verbatim>\<open>const canCreateScan = user && (user.role === UserRole.ANALYST || user.role === UserRole.ADMIN)\<close>.
  The value is only ever tested for truthiness (\<^verbatim>\<open>{canCreateScan && (<Button ...>)}\<close>), so
  the model returns that truth value; a \<^verbatim>\<open>null\<close> user is \<open>None\<close>.
\<close>

definition canCreateScan :: "User option \<Rightarrow> bool" where
  "canCreateScan user =
     (case user of None \<Rightarrow> False | Some u \<Rightarrow> role u = ANALYST \<or> role u = ADMIN)"

text \<open>
  The component state the new-scan dialog depends on (\<^verbatim>\<open>useState\<close>), and the events that
  write it. The button that opens the dialog is in the tree only when \<^verbatim>\<open>canCreateScan\<close>
  holds, so its click cannot happen otherwise: the step leaves the state as it is. The
  dialog closes by \<^verbatim>\<open>onClose\<close>, by the cancel button, and after a scan was created;
  \<^verbatim>\<open>handleCreateScan\<close> returns at once on an empty target, sets \<^verbatim>\<open>creating\<close>
  otherwise, and ends in one of the two outcomes of the request.
\<close>

record ScansPage =
  openDialog :: bool
  targetUrl :: string
  creating :: bool

definition ScansPage_init :: ScansPage where
  "ScansPage_init = \<lparr>openDialog = False, targetUrl = [], creating = False\<rparr>"

datatype ScansPage_event =
    ClickNewScan
  | CloseDialog
  | ChangeTargetUrl string
  | ClickStartScan
  | ScanCreated
  | ScanCreationFailed

definition newScanButton_rendered :: "User option \<Rightarrow> bool" where
  "newScanButton_rendered user = canCreateScan user"

fun ScansPage_step :: "User option \<Rightarrow> ScansPage \<Rightarrow> ScansPage_event \<Rightarrow> ScansPage" where
  "ScansPage_step user p ClickNewScan =
     (if newScanButton_rendered user then p\<lparr>openDialog := True\<rparr> else p)"
| "ScansPage_step user p CloseDialog = p\<lparr>openDialog := False\<rparr>"
| "ScansPage_step user p (ChangeTargetUrl s) = p\<lparr>targetUrl := s\<rparr>"
| "ScansPage_step user p ClickStartScan =
     (if targetUrl p = [] then p else p\<lparr>creating := True\<rparr>)"
| "ScansPage_step user p ScanCreated = p\<lparr>openDialog := False, targetUrl := [], creating := False\<rparr>"
| "ScansPage_step user p ScanCreationFailed = p\<lparr>creating := False\<rparr>"

fun ScansPage_run :: "User option \<Rightarrow> ScansPage \<Rightarrow> ScansPage_event list \<Rightarrow> ScansPage" where
  "ScansPage_run user p [] = p"
| "ScansPage_run user p (e # es) = ScansPage_run user (ScansPage_step user p e) es"

section \<open>The API gateway client (\<^verbatim>\<open>services/api.ts\<close>)\<close>

text \<open>
  What the client reads and writes in the browser: \<^verbatim>\<open>localStorage\<close>, a map from keys to
  strings (\<^verbatim>\<open>getItem\<close> gives \<^verbatim>\<open>null\<close>, here \<open>None\<close>, for a missing key), and
  \<^verbatim>\<open>window.location.href\<close>.
\<close>

record Browser =
  localStorage :: "string \<rightharpoonup> string"
  location_href :: string

definition getItem :: "Browser \<Rightarrow> string \<Rightarrow> string option" where
  "getItem b k = localStorage b k"

definition setItem :: "Browser \<Rightarrow> string \<Rightarrow> string \<Rightarrow> Browser" where
  "setItem b k v = b\<lparr>localStorage := (localStorage b)(k \<mapsto> v)\<rparr>"

definition removeItem :: "Browser \<Rightarrow> string \<Rightarrow> Browser" where
  "removeItem b k = b\<lparr>localStorage := (localStorage b)(k := None)\<rparr>"

text \<open>
  A request configuration, a response, and the error axios rejects with; \<^verbatim>\<open>method\<close> is
  suffixed. \<^verbatim>\<open>error.response\<close> is absent when no response arrived at all.
\<close>

record request_config =
  baseURL :: string
  url :: string
  method_cfg :: string
  headers :: "string \<rightharpoonup> string"
  body :: "(string \<times> string) list"

record 'a response =
  status :: int
  data :: 'a

datatype 'a AxiosError = AxiosError (response: "'a response option")

text \<open>
  The backend is a parameter: a function from the request it receives to its reply, which
  is a status with a body, or nothing (a network failure).
\<close>

datatype 'a reply = Reply int 'a | NoReply

type_synonym 'a backend = "request_config \<Rightarrow> 'a reply"

text \<open>\<^verbatim>\<open>fallbackLng: 'ru'\<close> of \<^verbatim>\<open>i18n/config.ts\<close>.\<close>

definition fallbackLng :: string where
  "fallbackLng = ''ru''"

text \<open>
  The request interceptor. \<^verbatim>\<open>if (token)\<close> and \<^verbatim>\<open>getItem(...) || 'ru'\<close> test
  truthiness: \<^verbatim>\<open>null\<close> and the empty string are both falsy.
\<close>

definition request_interceptor :: "Browser \<Rightarrow> request_config \<Rightarrow> request_config" where
  "request_interceptor b config =
     (let token = getItem b ''token'';
          config1 = (case token of
                       None \<Rightarrow> config
                     | Some t \<Rightarrow>
                         if t \<noteq> []
                         then config\<lparr>headers := (headers config)(''Authorization'' \<mapsto> ''Bearer '' @ t)\<rparr>
                         else config);
          currentLang = (case getItem b ''i18nextLng'' of
                           None \<Rightarrow> ''ru''
                         | Some l \<Rightarrow> if l \<noteq> [] then l else ''ru'')
      in config1\<lparr>headers := (headers config1)
           (''Accept-Language'' \<mapsto> (if currentLang = ''en'' then ''en'' else ''ru''))\<rparr>)"

text \<open>
  The response interceptor: \<^verbatim>\<open>(response) => response\<close> on success, and on an error the
  handler below, which always ends in \<^verbatim>\<open>Promise.reject(error)\<close> (\<open>Inl\<close>).
  \<^verbatim>\<open>error.response?.status === 401\<close> is false when there is no response.
\<close>

definition response_fulfilled :: "'a response \<Rightarrow> 'a response" where
  "response_fulfilled r = r"

definition response_rejected ::
  "Browser \<Rightarrow> 'a AxiosError \<Rightarrow> Browser \<times> ('a AxiosError + 'a response)" where
  "response_rejected b error =
     (let b' = (if (case response error of None \<Rightarrow> False | Some r \<Rightarrow> status r = 401)
                then (removeItem (removeItem b ''token'') ''user'')\<lparr>location_href := ''/login''\<rparr>
                else b)
      in (b', Inl error))"

text \<open>
  One request through the instance: the request interceptor, the backend, axios's default
  \<^verbatim>\<open>validateStatus\<close> (a status from 200 to 299 resolves, any other rejects with the
  response inside the error), then the response interceptor.
\<close>

definition validateStatus :: "int \<Rightarrow> bool" where
  "validateStatus s = (200 \<le> s \<and> s < 300)"

definition api_request ::
  "Browser \<Rightarrow> 'a backend \<Rightarrow> request_config \<Rightarrow> Browser \<times> ('a AxiosError + 'a response)" where
  "api_request b backend config =
     (case backend (request_interceptor b config) of
        NoReply \<Rightarrow> response_rejected b (AxiosError None)
      | Reply s d \<Rightarrow>
          if validateStatus s then (b, Inr (response_fulfilled \<lparr>status = s, data = d\<rparr>))
          else response_rejected b (AxiosError (Some \<lparr>status = s, data = d\<rparr>)))"

text \<open>\<^verbatim>\<open>axios.create({baseURL: '/api', headers: {'Content-Type': 'application/json'}})\<close>.\<close>

definition api_config :: "string \<Rightarrow> string \<Rightarrow> (string \<times> string) list \<Rightarrow> request_config" where
  "api_config m u bd =
     \<lparr>baseURL = ''/api'', url = u, method_cfg = m,
      headers = [''Content-Type'' \<mapsto> ''application/json''], body = bd\<rparr>"

definition api_post ::
  "Browser \<Rightarrow> 'a backend \<Rightarrow> string \<Rightarrow> (string \<times> string) list \<Rightarrow>
   Browser \<times> ('a AxiosError + 'a response)" where
  "api_post b backend u bd = api_request b backend (api_config ''post'' u bd)"

text \<open>
  \<^verbatim>\<open>authAPI.login\<close>: await the request and return \<^verbatim>\<open>response.data\<close>; a rejection
  passes through the \<^verbatim>\<open>await\<close>.
\<close>

record LoginRequest =
  username_login :: string
  password :: string

definition authAPI_login ::
  "Browser \<Rightarrow> 'a backend \<Rightarrow> LoginRequest \<Rightarrow> Browser \<times> ('a AxiosError + 'a)" where
  "authAPI_login b backend credentials =
     (case api_post b backend ''/auth/login''
             [(''username'', username_login credentials), (''password'', password credentials)] of
        (b', Inl e) \<Rightarrow> (b', Inl e)
      | (b', Inr r) \<Rightarrow> (b', Inr (data r)))"

section \<open>Session context and route guard\<close>

text \<open>
  The bodies the backend sends for the login and the profile (section 6 of the
  specification): \<^verbatim>\<open>{access_token}\<close>, a \<^verbatim>\<open>User\<close>, and any other body, such as the
  detail of an error.
\<close>

datatype payload = LoginResponse (access_token: string) | UserData User | OtherBody string

text \<open>
  The session context: the state of the browser it works on, the current user and the
  loading flag.
\<close>

record Session =
  browser :: Browser
  user :: "User option"
  isLoading :: bool

text \<open>
  Modelled from the spec: \<^verbatim>\<open>components/ProtectedRoute.tsx\<close> (the route guard) is not
  among the sources; only its uses in \<^verbatim>\<open>App\<close> are. Section 4.4: given an allow-list of
  roles (possibly empty, meaning any authenticated user) and the session context, the
  guard renders (a) a neutral loading placeholder while \<^verbatim>\<open>isLoading\<close>, (b) a redirect to
  the login entry point when the user is absent, (c) a redirect to a safe default view when
  the user is present but its role is not in the allow-list, (d) otherwise the protected
  content. The role check is membership in the list.
\<close>

datatype rendering = LoadingPlaceholder | RedirectToLogin | RedirectToDefault | ProtectedContent

definition ProtectedRoute :: "int list \<Rightarrow> Session \<Rightarrow> rendering" where
  "ProtectedRoute allowedRoles s =
     (if isLoading s then LoadingPlaceholder
      else case user s of
             None \<Rightarrow> RedirectToLogin
           | Some u \<Rightarrow>
               if allowedRoles \<noteq> [] \<and> role u \<notin> set allowedRoles then RedirectToDefault
               else ProtectedContent)"

text \<open>
  The routes of \<^verbatim>\<open>App\<close> (source) that stand behind the guard, with the allow-list each
  one passes: only \<^verbatim>\<open>/users\<close> passes one, \<^verbatim>\<open>[UserRole.ADMIN]\<close>; the others pass none,
  which is the empty list of the specification.
\<close>

datatype route = DashboardRoute | ScansRoute | ScanDetailsRoute | CWERoute | UsersRoute

fun App_allowedRoles :: "route \<Rightarrow> int list" where
  "App_allowedRoles DashboardRoute = []"
| "App_allowedRoles ScansRoute = []"
| "App_allowedRoles ScanDetailsRoute = []"
| "App_allowedRoles CWERoute = []"
| "App_allowedRoles UsersRoute = [ADMIN]"

definition App_element :: "route \<Rightarrow> Session \<Rightarrow> rendering" where
  "App_element r s = ProtectedRoute (App_allowedRoles r) s"

section \<open>Vulnerability counts (\<^verbatim>\<open>ScansPage.tsx\<close>, \<^verbatim>\<open>DashboardPage.tsx\<close>, \<^verbatim>\<open>ScanDetailsPage.tsx\<close>)\<close>









section \<open>Sample values\<close>

definition alice :: "int \<Rightarrow> User" where
  "alice r = \<lparr>id_user = 1, username = ''alice'', role = r,
              created_at = ''2025-01-01'', updated_at = ''2025-01-01''\<rparr>"

definition stale_browser :: Browser where
  "stale_browser =
     \<lparr>localStorage = [''token'' \<mapsto> ''stale'', ''user'' \<mapsto> ''alice'', ''i18nextLng'' \<mapsto> ''en''],
      location_href = ''/scans''\<rparr>"

definition login_page_browser :: Browser where
  "login_page_browser =
     \<lparr>localStorage = [''token'' \<mapsto> ''valid'', ''user'' \<mapsto> ''alice''], location_href = ''/login''\<rparr>"

definition empty_browser :: Browser where
  "empty_browser = \<lparr>localStorage = Map.empty, location_href = ''/login''\<rparr>"



definition wrong_password :: LoginRequest where
  "wrong_password = \<lparr>username_login = ''admin'', password = ''wrong''\<rparr>"

definition refuse_401 :: "payload backend" where
  "refuse_401 cfg = Reply 401 (OtherBody ''Incorrect username or password'')"

definition fail_500 :: "payload backend" where
  "fail_500 cfg = Reply 500 (OtherBody ''Internal Server Error'')"

definition loading_session :: Session where
  "loading_session = \<lparr>browser = stale_browser, user = None, isLoading = True\<rparr>"

definition admin_session :: Session where
  "admin_session = \<lparr>browser = stale_browser, user = Some (alice ADMIN), isLoading = False\<rparr>"

section \<open>Helper facts\<close>

lemmas UserRole_defs = DEV_def ANALYST_def ADMIN_def
lemmas ScanStatus_defs = PENDING_def RUNNING_def COMPLETED_def FAILED_def
lemmas VulnerabilitySeverity_defs = LOW_def MEDIUM_def HIGH_def CRITICAL_def

lemma getItem_simps:
  "getItem (removeItem b k) k' = (if k' = k then None else getItem b k')"
  "getItem (setItem b k v) k' = (if k' = k then Some v else getItem b k')"
  "getItem (b\<lparr>location_href := h\<rparr>) k' = getItem b k'"
  by (simp_all add: getItem_def removeItem_def setItem_def)

lemma response_rejected_401:
  "response e = Some r \<Longrightarrow> status r = 401 \<Longrightarrow>
   response_rejected b e =
     ((removeItem (removeItem b ''token'') ''user'')\<lparr>location_href := ''/login''\<rparr>, Inl e)"
  by (simp add: response_rejected_def)

lemma response_rejected_other:
  "(\<And>r. response e = Some r \<Longrightarrow> status r \<noteq> 401) \<Longrightarrow> response_rejected b e = (b, Inl e)"
  by (cases "response e") (simp_all add: response_rejected_def)

lemma api_request_Reply:
  "backend (request_interceptor b config) = Reply s d \<Longrightarrow>
   api_request b backend config =
     (if validateStatus s then (b, Inr \<lparr>status = s, data = d\<rparr>)
      else if s = 401
      then ((removeItem (removeItem b ''token'') ''user'')\<lparr>location_href := ''/login''\<rparr>,
            Inl (AxiosError (Some \<lparr>status = s, data = d\<rparr>)))
      else (b, Inl (AxiosError (Some \<lparr>status = s, data = d\<rparr>))))"
  by (simp add: api_request_def response_fulfilled_def response_rejected_def)

lemma request_interceptor_keeps:
  "url (request_interceptor b config) = url config"
  "method_cfg (request_interceptor b config) = method_cfg config"
  "body (request_interceptor b config) = body config"
  by (simp_all add: request_interceptor_def Let_def split: option.splits)

lemma url_api_config: "url (api_config m u bd) = u"
  by (simp add: api_config_def)

lemma not_validateStatus_401: "\<not> validateStatus 401"
  by (simp add: validateStatus_def)

lemma authAPI_login_Reply:
  assumes "\<forall>cfg. url cfg = ''/auth/login'' \<longrightarrow> backend cfg = Reply s d"
  shows "authAPI_login b backend c =
     (if validateStatus s then (b, Inr d)
      else if s = 401
      then ((removeItem (removeItem b ''token'') ''user'')\<lparr>location_href := ''/login''\<rparr>,
            Inl (AxiosError (Some \<lparr>status = s, data = d\<rparr>)))
      else (b, Inl (AxiosError (Some \<lparr>status = s, data = d\<rparr>))))"
proof -
  let ?cfg = "api_config ''post'' ''/auth/login''
      [(''username'', username_login c), (''password'', password c)]"
  have "backend (request_interceptor b ?cfg) = Reply s d"
    using assms by (simp add: request_interceptor_keeps url_api_config)
  then show ?thesis
    by (simp add: authAPI_login_def api_post_def api_request_Reply)
qed

lemma removeItem_absent: "getItem b k = None \<Longrightarrow> removeItem b k = b"
  by (simp add: getItem_def removeItem_def fun_upd_idem)

lemma authAPI_login_401:
  assumes "\<forall>cfg. url cfg = ''/auth/login'' \<longrightarrow> backend cfg = Reply 401 d"
  shows "authAPI_login b backend c =
     ((removeItem (removeItem b ''token'') ''user'')\<lparr>location_href := ''/login''\<rparr>,
      Inl (AxiosError (Some \<lparr>status = 401, data = d\<rparr>)))"
  using authAPI_login_Reply [OF assms, of b c] by (simp add: not_validateStatus_401)

lemma refuse_401_login:
  "\<forall>cfg. url cfg = ''/auth/login'' \<longrightarrow>
     refuse_401 cfg = Reply 401 (OtherBody ''Incorrect username or password'')"
  by (simp add: refuse_401_def)



lemma ScansPage_step_inv:
  "openDialog p \<longrightarrow> canCreateScan u \<Longrightarrow> openDialog (ScansPage_step u p e) \<longrightarrow> canCreateScan u"
  by (cases e) (auto simp: newScanButton_rendered_def)

lemma ScansPage_run_inv:
  "openDialog p \<longrightarrow> canCreateScan u \<Longrightarrow> openDialog (ScansPage_run u p es) \<longrightarrow> canCreateScan u"
proof (induction es arbitrary: p)
  case Nil
  then show ?case by simp
next
  case (Cons e es)
  from Cons.prems have "openDialog (ScansPage_step u p e) \<longrightarrow> canCreateScan u"
    by (rule ScansPage_step_inv)
  then show ?case using Cons.IH by simp
qed

section \<open>Status colour and severity colour\<close>

text \<open>
  C6. The status-to-colour mapping is total: COMPLETED gives success, RUNNING warning,
  FAILED error, PENDING the neutral default, and every number outside the four status
  values gives the neutral default as well. Both copies of the function agree.
\<close>

theorem getStatusColor_total:
  "getStatusColor COMPLETED = ''success'' \<and> getStatusColor RUNNING = ''warning'' \<and>
   getStatusColor FAILED = ''error'' \<and> getStatusColor PENDING = ''default'' \<and>
   (s \<notin> {PENDING, RUNNING, COMPLETED, FAILED} \<longrightarrow> getStatusColor s = ''default'') \<and>
   getStatusColor_details s = getStatusColor s"
  by (simp add: getStatusColor_def getStatusColor_details_def ScanStatus_defs)

theorem getStatusColor_total_witness:
  "(7::int) \<notin> {PENDING, RUNNING, COMPLETED, FAILED} \<and> getStatusColor 7 = ''default'' \<and>
   getStatusColor_details 7 = ''default''"
  using getStatusColor_total [of 7] by (simp add: ScanStatus_defs)

text \<open>
  C8. The severity-to-presentation mapping is defined on exactly the four severity
  values: CRITICAL and HIGH have the most urgent treatment (error), MEDIUM the
  cautionary one (warning), LOW the informational one (info).
\<close>

theorem SeverityColors_total:
  "SeverityColors CRITICAL = Some ''error'' \<and> SeverityColors HIGH = Some ''error'' \<and>
   SeverityColors MEDIUM = Some ''warning'' \<and> SeverityColors LOW = Some ''info'' \<and>
   dom SeverityColors = {LOW, MEDIUM, HIGH, CRITICAL}"
  by (auto simp: SeverityColors_def VulnerabilitySeverity_defs split: if_splits)

section \<open>The gateway's interceptors\<close>

text \<open>
  C1. A response with status 401 makes the client remove the stored token and the cached
  user, set the location to the login entry point, and reject with the error it received;
  a response with any other error status, or an error without a response, is rejected
  with the same error and leaves the browser state as it was. This holds for the error
  handler itself and for a whole request through the instance.
\<close>

theorem response_401_forced_logout:
  fixes b :: Browser and backend :: "'a backend" and e :: "'a AxiosError"
  shows
  "(backend (request_interceptor b config) = Reply s d \<and> \<not> validateStatus s \<longrightarrow>
      snd (api_request b backend config) = Inl (AxiosError (Some \<lparr>status = s, data = d\<rparr>)) \<and>
      (s = 401 \<longrightarrow>
         getItem (fst (api_request b backend config)) ''token'' = None \<and>
         getItem (fst (api_request b backend config)) ''user'' = None \<and>
         location_href (fst (api_request b backend config)) = ''/login'') \<and>
      (s \<noteq> 401 \<longrightarrow> fst (api_request b backend config) = b)) \<and>
   snd (response_rejected b e) = Inl e \<and>
   ((\<exists>r. response e = Some r \<and> status r = 401) \<longrightarrow>
      getItem (fst (response_rejected b e)) ''token'' = None \<and>
      getItem (fst (response_rejected b e)) ''user'' = None \<and>
      location_href (fst (response_rejected b e)) = ''/login'') \<and>
   (\<not> (\<exists>r. response e = Some r \<and> status r = 401) \<longrightarrow>
      fst (response_rejected b e) = b)"
proof -
  have pipeline:
    "snd (api_request b backend config) = Inl (AxiosError (Some \<lparr>status = s, data = d\<rparr>)) \<and>
     (s = 401 \<longrightarrow>
        getItem (fst (api_request b backend config)) ''token'' = None \<and>
        getItem (fst (api_request b backend config)) ''user'' = None \<and>
        location_href (fst (api_request b backend config)) = ''/login'') \<and>
     (s \<noteq> 401 \<longrightarrow> fst (api_request b backend config) = b)"
    if "backend (request_interceptor b config) = Reply s d" "\<not> validateStatus s"
    using that by (auto simp: api_request_Reply getItem_simps)
  have passes: "snd (response_rejected b e) = Inl e"
    by (simp add: response_rejected_def)
  have cleared:
    "getItem (fst (response_rejected b e)) ''token'' = None \<and>
     getItem (fst (response_rejected b e)) ''user'' = None \<and>
     location_href (fst (response_rejected b e)) = ''/login''"
    if "\<exists>r. response e = Some r \<and> status r = 401"
    using that by (auto simp: response_rejected_401 getItem_simps)
  have untouched: "fst (response_rejected b e) = b"
    if "\<not> (\<exists>r. response e = Some r \<and> status r = 401)"
    using that by (simp add: response_rejected_other)
  from pipeline passes cleared untouched show ?thesis by blast
qed

theorem response_401_forced_logout_witness:
  "snd (api_request stale_browser refuse_401 (api_config ''get'' ''/scans/'' [])) =
     Inl (AxiosError (Some \<lparr>status = 401, data = OtherBody ''Incorrect username or password''\<rparr>)) \<and>
   getItem (fst (api_request stale_browser refuse_401 (api_config ''get'' ''/scans/'' []))) ''token'' = None \<and>
   location_href (fst (api_request stale_browser refuse_401 (api_config ''get'' ''/scans/'' []))) = ''/login'' \<and>
   fst (api_request stale_browser fail_500 (api_config ''get'' ''/scans/'' [])) = stale_browser"
  using response_401_forced_logout [of refuse_401 stale_browser "api_config ''get'' ''/scans/'' []"
      401 "OtherBody ''Incorrect username or password''" "AxiosError None"]
    response_401_forced_logout [of fail_500 stale_browser "api_config ''get'' ''/scans/'' []"
      500 "OtherBody ''Internal Server Error''" "AxiosError None"]
  by (simp add: validateStatus_def refuse_401_def fail_500_def)

text \<open>
  C4. When the store holds a token (a non-empty string), the request that leaves the
  interceptor carries \<^verbatim>\<open>Authorization: Bearer <token>\<close>. When the store holds none (or
  the empty string), the interceptor leaves the header as the configuration had it, and a
  request built by the instance has none; a bare \<^verbatim>\<open>Bearer\<close> with no token is never sent.
\<close>

theorem request_authorization_header:
  "(getItem b ''token'' = Some t \<and> t \<noteq> [] \<longrightarrow>
      headers (request_interceptor b config) ''Authorization'' = Some (''Bearer '' @ t)) \<and>
   (getItem b ''token'' = None \<or> getItem b ''token'' = Some [] \<longrightarrow>
      headers (request_interceptor b config) ''Authorization'' = headers config ''Authorization'' \<and>
      headers (request_interceptor b (api_config m u bd)) ''Authorization'' = None) \<and>
   headers (request_interceptor b (api_config m u bd)) ''Authorization'' \<noteq> Some ''Bearer ''"
  by (auto simp: request_interceptor_def api_config_def Let_def split: option.splits)

theorem request_authorization_header_witness:
  "headers (request_interceptor stale_browser (api_config ''get'' ''/scans/'' [])) ''Authorization'' =
     Some ''Bearer stale'' \<and>
   headers (request_interceptor empty_browser (api_config ''get'' ''/scans/'' [])) ''Authorization'' = None"
proof -
  have present: "getItem stale_browser ''token'' = Some ''stale'' \<and> ''stale'' \<noteq> []"
    by (simp add: getItem_def stale_browser_def)
  have absent: "getItem empty_browser ''token'' = None \<or> getItem empty_browser ''token'' = Some []"
    by (simp add: getItem_def empty_browser_def)
  from present
    request_authorization_header [of stale_browser "''stale''" "api_config ''get'' ''/scans/'' []"]
  have 1: "headers (request_interceptor stale_browser (api_config ''get'' ''/scans/'' []))
      ''Authorization'' = Some (''Bearer '' @ ''stale'')"
    by blast
  from absent
    request_authorization_header [of empty_browser _ _ "''get''" "''/scans/''" "[]"]
  have 2: "headers (request_interceptor empty_browser (api_config ''get'' ''/scans/'' []))
      ''Authorization'' = None"
    by blast
  from 1 2 show ?thesis by simp
qed

text \<open>
  C9. Every request that leaves the interceptor carries an \<^verbatim>\<open>Accept-Language\<close> header,
  which is \<^verbatim>\<open>en\<close> when the stored language is exactly \<^verbatim>\<open>en\<close> and \<^verbatim>\<open>ru\<close> for any other
  stored value; with no language stored it is the fallback locale.
\<close>

theorem request_accept_language:
  "headers (request_interceptor b config) ''Accept-Language'' =
     Some (if getItem b ''i18nextLng'' = Some ''en'' then ''en'' else ''ru'') \<and>
   (getItem b ''i18nextLng'' = None \<longrightarrow>
      headers (request_interceptor b config) ''Accept-Language'' = Some fallbackLng)"
  by (auto simp: request_interceptor_def Let_def fallbackLng_def split: option.splits)

theorem request_accept_language_witness:
  "getItem empty_browser ''i18nextLng'' = None \<and>
   headers (request_interceptor empty_browser (api_config ''get'' ''/scans/'' [])) ''Accept-Language'' =
     Some ''ru''"
  using request_accept_language [of empty_browser "api_config ''get'' ''/scans/'' []"]
  by (simp add: getItem_def empty_browser_def fallbackLng_def)

section \<open>The login request\<close>

text \<open>
  C5 (the code at a failing input). The login request goes through the same instance and
  the same response interceptor as every other request. On the login page, with the token
  and the cached user of a session in the store, a login that the backend answers with 401
  is rejected to its caller with that error, but before that the interceptor has taken its
  401 branch: the token and the cached user are removed and the login entry point is
  assigned to the location. The forced logout runs for the login request too.
\<close>

theorem login_401_runs_forced_logout:
  "getItem login_page_browser ''token'' = Some ''valid'' \<and>
   getItem login_page_browser ''user'' = Some ''alice'' \<and>
   snd (authAPI_login login_page_browser refuse_401 wrong_password) =
     Inl (AxiosError (Some \<lparr>status = 401, data = OtherBody ''Incorrect username or password''\<rparr>)) \<and>
   fst (authAPI_login login_page_browser refuse_401 wrong_password) =
     (removeItem (removeItem login_page_browser ''token'') ''user'')\<lparr>location_href := ''/login''\<rparr> \<and>
   getItem (fst (authAPI_login login_page_browser refuse_401 wrong_password)) ''token'' = None \<and>
   getItem (fst (authAPI_login login_page_browser refuse_401 wrong_password)) ''user'' = None \<and>
   location_href (fst (authAPI_login login_page_browser refuse_401 wrong_password)) = ''/login''"
proof -
  have "getItem login_page_browser ''token'' = Some ''valid''"
    and "getItem login_page_browser ''user'' = Some ''alice''"
    by (simp_all add: getItem_def login_page_browser_def)
  then show ?thesis
    by (simp add: authAPI_login_401 [OF refuse_401_login] getItem_simps)
qed

text \<open>
  C7 (the code at a failing input). A login with invalid credentials, answered with 401, is
  rejected with that error. When the store held neither a token nor a cached user it is
  left as it was. When it held a token, the store is not left unchanged: the response
  interceptor has removed the token.
\<close>

theorem login_invalid_changes_store:
  "snd (authAPI_login empty_browser refuse_401 wrong_password) =
     Inl (AxiosError (Some \<lparr>status = 401, data = OtherBody ''Incorrect username or password''\<rparr>)) \<and>
   localStorage (fst (authAPI_login empty_browser refuse_401 wrong_password)) =
     localStorage empty_browser \<and>
   snd (authAPI_login login_page_browser refuse_401 wrong_password) =
     Inl (AxiosError (Some \<lparr>status = 401, data = OtherBody ''Incorrect username or password''\<rparr>)) \<and>
   localStorage login_page_browser ''token'' = Some ''valid'' \<and>
   localStorage (fst (authAPI_login login_page_browser refuse_401 wrong_password)) ''token'' = None \<and>
   localStorage (fst (authAPI_login login_page_browser refuse_401 wrong_password)) \<noteq>
     localStorage login_page_browser"
proof -
  have absent: "getItem empty_browser ''token'' = None" "getItem empty_browser ''user'' = None"
    by (simp_all add: getItem_def empty_browser_def)
  have kept: "localStorage (fst (authAPI_login empty_browser refuse_401 wrong_password)) =
      localStorage empty_browser"
    by (simp add: authAPI_login_401 [OF refuse_401_login] removeItem_absent absent)
  have before: "localStorage login_page_browser ''token'' = Some ''valid''"
    by (simp add: login_page_browser_def)
  have after:
    "localStorage (fst (authAPI_login login_page_browser refuse_401 wrong_password)) ''token'' = None"
    by (simp add: authAPI_login_401 [OF refuse_401_login] removeItem_def)
  have changed: "localStorage (fst (authAPI_login login_page_browser refuse_401 wrong_password)) \<noteq>
      localStorage login_page_browser"
  proof
    assume "localStorage (fst (authAPI_login login_page_browser refuse_401 wrong_password)) =
      localStorage login_page_browser"
    with after have "localStorage login_page_browser ''token'' = None" by simp
    with before show False by simp
  qed
  from kept before after changed show ?thesis
    by (simp add: authAPI_login_401 [OF refuse_401_login])
qed

section \<open>The route guard\<close>

text \<open>
  C2 (as the guard is specified). While the session is loading the guard renders the
  loading placeholder, whatever the user and the allow-list. Once it is not loading, the
  guard renders the protected content if and only if a user is present and the allow-list
  is empty or contains the user's role; it redirects to the login entry point when no user
  is present and to the default view when the role is not in a non-empty allow-list. The
  check is plain membership: ADMIN is redirected from a route whose non-empty allow-list
  does not contain ADMIN, and the users route of the application admits ADMIN only.
\<close>

theorem ProtectedRoute_decision:
  "(isLoading s \<longrightarrow> ProtectedRoute L s = LoadingPlaceholder) \<and>
   (\<not> isLoading s \<longrightarrow>
      (ProtectedRoute L s = ProtectedContent \<longleftrightarrow>
         (\<exists>u. user s = Some u \<and> (L = [] \<or> role u \<in> set L))) \<and>
      (user s = None \<longrightarrow> ProtectedRoute L s = RedirectToLogin) \<and>
      ((\<exists>u. user s = Some u \<and> L \<noteq> [] \<and> role u \<notin> set L) \<longrightarrow>
         ProtectedRoute L s = RedirectToDefault) \<and>
      ((\<exists>u. user s = Some u \<and> role u = ADMIN) \<and> L \<noteq> [] \<and> ADMIN \<notin> set L \<longrightarrow>
         ProtectedRoute L s = RedirectToDefault) \<and>
      (App_element UsersRoute s = ProtectedContent \<longleftrightarrow> (\<exists>u. user s = Some u \<and> role u = ADMIN)))"
  by (auto simp: ProtectedRoute_def App_element_def split: option.splits)

theorem ProtectedRoute_decision_witness:
  "isLoading loading_session \<and> ProtectedRoute [] loading_session = LoadingPlaceholder \<and>
   \<not> isLoading admin_session \<and> ProtectedRoute [ADMIN] admin_session = ProtectedContent \<and>
   ProtectedRoute [ANALYST] admin_session = RedirectToDefault"
proof -
  have l: "isLoading loading_session" and n: "\<not> isLoading admin_session"
    and u: "user admin_session = Some (alice ADMIN)" and r: "role (alice ADMIN) = ADMIN"
    by (simp_all add: loading_session_def admin_session_def alice_def)
  from l ProtectedRoute_decision [of loading_session "[]"]
  have 1: "ProtectedRoute [] loading_session = LoadingPlaceholder" by blast
  from n u r ProtectedRoute_decision [of admin_session "[ADMIN]"]
  have 2: "ProtectedRoute [ADMIN] admin_session = ProtectedContent" by simp
  have "ADMIN \<notin> set [ANALYST]" "[ANALYST] \<noteq> []" by (simp_all add: UserRole_defs)
  with n u r ProtectedRoute_decision [of admin_session "[ANALYST]"]
  have 3: "ProtectedRoute [ANALYST] admin_session = RedirectToDefault" by blast
  from l n 1 2 3 show ?thesis by simp
qed

text \<open>
  The claim as it is written fails while the session is loading: with no user the guard
  does not redirect, and with a user whose role is in the allow-list it does not render
  the content.
\<close>

theorem ProtectedRoute_counterexample:
  "user loading_session = None \<and>
   ProtectedRoute [] loading_session \<noteq> RedirectToLogin \<and>
   ProtectedRoute [] loading_session \<noteq> RedirectToDefault \<and>
   ProtectedRoute [] loading_session \<noteq> ProtectedContent \<and>
   user (admin_session\<lparr>isLoading := True\<rparr>) = Some (alice ADMIN) \<and>
   role (alice ADMIN) \<in> set [ADMIN] \<and>
   ProtectedRoute [ADMIN] (admin_session\<lparr>isLoading := True\<rparr>) \<noteq> ProtectedContent"
  by (simp add: ProtectedRoute_def loading_session_def admin_session_def alice_def)

section \<open>Vulnerability counts\<close>




section \<open>The new-scan action\<close>

text \<open>
  C10. The new-scan button is rendered if and only if a user is present whose role is
  ANALYST or ADMIN; it is never rendered for an absent user or for a DEV user. The dialog,
  closed at first, is opened by that button only: whatever happens on the page, it is open
  only for a user to whom the button is rendered.
\<close>

theorem newScan_offered_iff:
  "(newScanButton_rendered u \<longleftrightarrow> (\<exists>x. u = Some x \<and> (role x = ANALYST \<or> role x = ADMIN))) \<and>
   \<not> newScanButton_rendered None \<and>
   ((\<exists>x. u = Some x \<and> role x = DEV) \<longrightarrow> \<not> newScanButton_rendered u) \<and>
   (openDialog (ScansPage_run u ScansPage_init es) \<longrightarrow> newScanButton_rendered u) \<and>
   (newScanButton_rendered u \<longrightarrow> openDialog (ScansPage_step u ScansPage_init ClickNewScan))"
proof -
  have "openDialog (ScansPage_run u ScansPage_init es) \<longrightarrow> canCreateScan u"
    by (rule ScansPage_run_inv) (simp add: ScansPage_init_def)
  then show ?thesis
    by (auto simp: newScanButton_rendered_def canCreateScan_def UserRole_defs split: option.splits)
qed

theorem newScan_offered_iff_witness:
  "\<not> newScanButton_rendered (Some (alice DEV)) \<and>
   newScanButton_rendered (Some (alice ANALYST)) \<and>
   \<not> openDialog (ScansPage_run (Some (alice DEV)) ScansPage_init [ClickNewScan]) \<and>
   openDialog (ScansPage_step (Some (alice ANALYST)) ScansPage_init ClickNewScan)"
proof -
  have d: "\<exists>x. Some (alice DEV) = Some x \<and> role x = DEV"
    and a: "\<exists>x. Some (alice ANALYST) = Some x \<and> (role x = ANALYST \<or> role x = ADMIN)"
    by (simp_all add: alice_def)
  from d newScan_offered_iff [of "Some (alice DEV)" "[ClickNewScan]"]
  have 1: "\<not> newScanButton_rendered (Some (alice DEV)) \<and>
      \<not> openDialog (ScansPage_run (Some (alice DEV)) ScansPage_init [ClickNewScan])"
    by blast
  from a newScan_offered_iff [of "Some (alice ANALYST)" "[]"]
  have 2: "newScanButton_rendered (Some (alice ANALYST)) \<and>
      openDialog (ScansPage_step (Some (alice ANALYST)) ScansPage_init ClickNewScan)"
    by blast
  from 1 2 show ?thesis by blast
qed

end
